theory Spec2Isabelle
  imports Main "HOL-Library.Word"
begin

section \<open>Values, exceptions and the host\<close>

text \<open>
  The operations of \<^verbatim>\<open>main.py\<close> return Python dictionaries whose values are strings,
  integers, booleans, floats, lists and nested dictionaries. A dictionary keeps the order
  in which its keys were written, so it is an association list.
\<close>

datatype json =
    JStr string
  | JInt int
  | JBool bool
  | JFloat "64 word"
  | JList "json list"
  | JObj "(string \<times> json) list"

type_synonym envelope = "(string \<times> json) list"

text \<open>
  A raised Python exception. \<open>str\<close> is Python's \<^verbatim>\<open>str(e)\<close>; for the errors of the
  file system it is the interpreter's message, for a \<^verbatim>\<open>ValueError\<close>, a decoding error
  and an error of an external facility (process, network, host call) it is the message
  that came with the error.
\<close>

datatype exception =
    FileNotFoundError string
  | IsADirectoryError string
  | NotADirectoryError string
  | FileExistsError string
  | FileNameTooLong string
  | ValueError string
  | UnicodeDecodeError string
  | HostError string

fun str :: "exception \<Rightarrow> string" where
  "str (FileNotFoundError p) = ''[Errno 2] No such file or directory: '' @ [CHR 0x27] @ p @ [CHR 0x27]"
| "str (IsADirectoryError p) = ''[Errno 21] Is a directory: '' @ [CHR 0x27] @ p @ [CHR 0x27]"
| "str (NotADirectoryError p) = ''[Errno 20] Not a directory: '' @ [CHR 0x27] @ p @ [CHR 0x27]"
| "str (FileExistsError p) = ''[Errno 17] File exists: '' @ [CHR 0x27] @ p @ [CHR 0x27]"
| "str (FileNameTooLong p) = ''[Errno 36] File name too long: '' @ [CHR 0x27] @ p @ [CHR 0x27]"
| "str (ValueError m) = m"
| "str (UnicodeDecodeError m) = m"
| "str (HostError m) = m"

text \<open>
  The file system of a POSIX host, keyed by the path string as the program passes it
  (no normalisation of the string). An entry is a regular file with its text, a regular
  file whose bytes are not UTF-8 (with the decoder's message), a directory, or the null
  device (\<^verbatim>\<open>/dev/null\<close>: it accepts every write and reads as empty). A path without
  a slash lives in the working directory, which exists. Permissions, links and the other
  special files are not modelled, nor a failure of the medium. A text is a HOL string, so
  it has no code point that UTF-8 cannot encode: \<^verbatim>\<open>f.write\<close> on an open file does not
  raise.
\<close>

datatype node = File string | Undecodable string | NullDevice | Dir

record world =
  fs :: "string \<Rightarrow> node option"
  cwd :: string
  environ :: "string \<Rightarrow> string option"

record completed_process =
  stdout :: string
  stderr :: string
  returncode :: int

record response =
  status_code :: int
  text_body :: string

record stat_result =
  st_size :: int
  st_mtime :: "64 word"
  st_ctime :: "64 word"

text \<open>
  The external facilities whose behaviour the program does not determine are parameters:
  each either raises (\<open>Inl\<close>) or returns (\<open>Inr\<close>). \<open>open_other\<close> is
  \<^verbatim>\<open>open(path, mode)\<close> followed by \<^verbatim>\<open>f.write(content)\<close> for a mode other than
  \<^verbatim>\<open>'w'\<close> and \<^verbatim>\<open>'a'\<close>.
\<close>

record host =
  subprocess_run :: "string \<Rightarrow> world \<Rightarrow> exception + (completed_process \<times> world)"
  requests_get :: "string \<Rightarrow> (string \<times> string) list \<Rightarrow> world \<Rightarrow> exception + response"
  os_listdir :: "string \<Rightarrow> world \<Rightarrow> exception + string list"
  os_stat :: "string \<Rightarrow> world \<Rightarrow> exception + stat_result"
  os_makedirs :: "string \<Rightarrow> world \<Rightarrow> exception + world"
  open_other :: "string \<Rightarrow> string \<Rightarrow> string \<Rightarrow> world \<Rightarrow> exception + world"
  json_dumps :: "json \<Rightarrow> nat \<Rightarrow> string"

section \<open>Paths and files\<close>

definition basename :: "string \<Rightarrow> string" where
  "basename p = rev (takeWhile (\<lambda>c. c \<noteq> CHR ''/'') (rev p))"

text \<open>The proper prefixes of a path that end before a slash: the directories that the
  host walks through, outermost first.\<close>

fun ancestors_from :: "string \<Rightarrow> string \<Rightarrow> string list" where
  "ancestors_from acc [] = []"
| "ancestors_from acc (c # cs) =
     (if c = CHR ''/'' \<and> acc \<noteq> [] then [acc] else []) @ ancestors_from (acc @ [c]) cs"

definition ancestors :: "string \<Rightarrow> string list" where
  "ancestors p = ancestors_from [] p"

text \<open>What a path names: a path that ends in a slash, in \<^verbatim>\<open>.\<close> or in \<^verbatim>\<open>..\<close> names
  a directory; any other path names its entry, if there is one.\<close>

definition target :: "world \<Rightarrow> string \<Rightarrow> node option" where
  "target w p =
     (if basename p = [] \<or> basename p = ''.'' \<or> basename p = ''..'' then Some Dir else fs w p)"

text \<open>The walk through the directories of a path \<open>p\<close>: a component longer than 255
  is refused, a missing directory and a component that is not a directory end the walk.\<close>

fun walk :: "world \<Rightarrow> string \<Rightarrow> string list \<Rightarrow> exception option" where
  "walk w p [] = None"
| "walk w p (a # as) =
     (if 255 < length (basename a) then Some (FileNameTooLong p)
      else (case target w a of
              Some Dir \<Rightarrow> walk w p as
            | None \<Rightarrow> Some (FileNotFoundError p)
            | Some n \<Rightarrow> Some (NotADirectoryError p)))"

definition path_error :: "world \<Rightarrow> string \<Rightarrow> exception option" where
  "path_error w p =
     (if CHR 0x00 \<in> set p then Some (ValueError ''embedded null byte'')
      else if p = [] then Some (FileNotFoundError p)
      else (case walk w p (ancestors p) of
              Some e \<Rightarrow> Some e
            | None \<Rightarrow> if 255 < length (basename p) then Some (FileNameTooLong p) else None))"

text \<open>Reading in text mode translates every \<^verbatim>\<open>\r\n\<close> and every remaining \<^verbatim>\<open>\r\<close> to
  \<^verbatim>\<open>\n\<close>.\<close>

fun universal_newlines :: "string \<Rightarrow> string" where
  "universal_newlines [] = []"
| "universal_newlines [c] = (if c = CHR 0x0D then [CHR 0x0A] else [c])"
| "universal_newlines (c # d # ds) =
     (if c = CHR 0x0D \<and> d = CHR 0x0A then CHR 0x0A # universal_newlines ds
      else if c = CHR 0x0D then CHR 0x0A # universal_newlines (d # ds)
      else c # universal_newlines (d # ds))"

text \<open>\<^verbatim>\<open>open(p, 'r', encoding='utf-8')\<close> and \<^verbatim>\<open>f.read()\<close>.\<close>

definition open_read :: "world \<Rightarrow> string \<Rightarrow> exception + string" where
  "open_read w p =
     (case path_error w p of
        Some e \<Rightarrow> Inl e
      | None \<Rightarrow>
          (case target w p of
             None \<Rightarrow> Inl (FileNotFoundError p)
           | Some Dir \<Rightarrow> Inl (IsADirectoryError p)
           | Some NullDevice \<Rightarrow> Inr []
           | Some (Undecodable m) \<Rightarrow> Inl (UnicodeDecodeError m)
           | Some (File c) \<Rightarrow> Inr (universal_newlines c)))"

text \<open>
  \<^verbatim>\<open>open(p, mode, encoding='utf-8')\<close> and \<^verbatim>\<open>f.write(content)\<close>. To create a file
  under a name that ends in a slash is refused as soon as the directories before that
  name are found.
\<close>

definition strip_slashes :: "string \<Rightarrow> string" where
  "strip_slashes p = rev (dropWhile (\<lambda>c. c = CHR ''/'') (rev p))"

definition open_write :: "host \<Rightarrow> world \<Rightarrow> string \<Rightarrow> string \<Rightarrow> string \<Rightarrow> exception + world" where
  "open_write h w p mode content =
     (if mode = ''w'' \<or> mode = ''a'' then
        (if CHR 0x00 \<in> set p then Inl (ValueError ''embedded null byte'')
         else if p \<noteq> [] \<and> last p = CHR ''/'' then
           (case walk w p (ancestors (strip_slashes p)) of
              Some e \<Rightarrow> Inl e
            | None \<Rightarrow> Inl (IsADirectoryError p))
         else
           (case path_error w p of
              Some e \<Rightarrow> Inl e
            | None \<Rightarrow>
                (case target w p of
                   Some Dir \<Rightarrow> Inl (IsADirectoryError p)
                 | Some NullDevice \<Rightarrow> Inr w
                 | Some (Undecodable m) \<Rightarrow>
                     (if mode = ''a'' then Inr w
                      else Inr (w\<lparr>fs := (fs w)(p \<mapsto> File content)\<rparr>))
                 | Some (File old) \<Rightarrow>
                     Inr (w\<lparr>fs := (fs w)(p \<mapsto> File (if mode = ''a'' then old @ content else content))\<rparr>)
                 | None \<Rightarrow> Inr (w\<lparr>fs := (fs w)(p \<mapsto> File content)\<rparr>))))
      else open_other h mode p content w)"

text \<open>\<^verbatim>\<open>Path(p).mkdir(exist_ok=True)\<close>: an existing directory is accepted, any other
  existing entry is not.\<close>

definition path_mkdir :: "world \<Rightarrow> string \<Rightarrow> exception + world" where
  "path_mkdir w p =
     (case path_error w p of
        Some e \<Rightarrow> Inl e
      | None \<Rightarrow>
          (case target w p of
             Some Dir \<Rightarrow> Inr w
           | Some n \<Rightarrow> Inl (FileExistsError p)
           | None \<Rightarrow> Inr (w\<lparr>fs := (fs w)(p \<mapsto> Dir)\<rparr>)))"

text \<open>\<^verbatim>\<open>Path(p).exists()\<close>, for a path whose components are not too long (the program
  asks for the plan file only).\<close>

definition path_exists :: "world \<Rightarrow> string \<Rightarrow> bool" where
  "path_exists w p = (path_error w p = None \<and> target w p \<noteq> None)"

definition os_path_isdir :: "world \<Rightarrow> string \<Rightarrow> bool" where
  "os_path_isdir w p = (path_error w p = None \<and> target w p = Some Dir)"

definition os_path_isfile :: "world \<Rightarrow> string \<Rightarrow> bool" where
  "os_path_isfile w p =
     (path_error w p = None \<and>
      (case target w p of Some (File c) \<Rightarrow> True | Some (Undecodable m) \<Rightarrow> True | _ \<Rightarrow> False))"

definition environ_get :: "world \<Rightarrow> string \<Rightarrow> string \<Rightarrow> string" where
  "environ_get w k d = (case environ w k of Some v \<Rightarrow> v | None \<Rightarrow> d)"

section \<open>The operation library (main.py)\<close>

definition run_command :: "host \<Rightarrow> world \<Rightarrow> string \<Rightarrow> envelope \<times> world" where
  "run_command h w command =
     (case subprocess_run h command w of
        Inr (result, w') \<Rightarrow>
          ([(''stdout'', JStr (stdout result)),
            (''stderr'', JStr (stderr result)),
            (''exit_code'', JInt (returncode result))], w')
      | Inl e \<Rightarrow>
          ([(''stdout'', JStr ''''),
            (''stderr'', JStr (str e)),
            (''exit_code'', JInt 1)], w))"

definition read_file :: "world \<Rightarrow> string \<Rightarrow> envelope" where
  "read_file w file_path =
     (case open_read w file_path of
        Inr content \<Rightarrow> [(''content'', JStr content), (''success'', JBool True)]
      | Inl e \<Rightarrow> [(''content'', JStr ''''), (''error'', JStr (str e)), (''success'', JBool False)])"

definition write_file :: "host \<Rightarrow> world \<Rightarrow> string \<Rightarrow> string \<Rightarrow> string \<Rightarrow> envelope \<times> world" where
  "write_file h w file_path content mode =
     (case open_write h w file_path mode content of
        Inr w' \<Rightarrow> ([(''success'', JBool True)], w')
      | Inl e \<Rightarrow> ([(''success'', JBool False), (''error'', JStr (str e))], w))"

definition append_file :: "host \<Rightarrow> world \<Rightarrow> string \<Rightarrow> string \<Rightarrow> envelope \<times> world" where
  "append_file h w file_path content = write_file h w file_path content ''a''"

definition web_search :: "host \<Rightarrow> world \<Rightarrow> string \<Rightarrow> envelope" where
  "web_search h w query =
     (case requests_get h ''https://www.googleapis.com/customsearch/v1''
             [(''q'', query),
              (''key'', environ_get w ''GOOGLE_API_KEY'' []),
              (''cx'', environ_get w ''GOOGLE_SEARCH_ENGINE_ID'' [])] w of
        Inr resp \<Rightarrow> [(''results'', JStr (text_body resp)), (''success'', JBool True)]
      | Inl e \<Rightarrow> [(''results'', JStr []), (''error'', JStr (str e)), (''success'', JBool False)])"

definition web_fetch :: "host \<Rightarrow> world \<Rightarrow> string \<Rightarrow> envelope" where
  "web_fetch h w url =
     (case requests_get h url [] w of
        Inr resp \<Rightarrow> [(''content'', JStr (text_body resp)), (''success'', JBool True)]
      | Inl e \<Rightarrow> [(''content'', JStr []), (''error'', JStr (str e)), (''success'', JBool False)])"

definition plan_dir :: string where
  "plan_dir = ''project_plan''"

definition plan_file :: string where
  "plan_file = plan_dir @ ''/'' @ ''action_plan.md''"

text \<open>
  \<^verbatim>\<open>create_project_plan\<close> calls \<^verbatim>\<open>plan_dir.mkdir(exist_ok=True)\<close> outside any
  \<^verbatim>\<open>try\<close>: when it raises, the exception leaves the function (\<open>Inl\<close>).
\<close>

definition create_project_plan :: "host \<Rightarrow> world \<Rightarrow> string \<Rightarrow> exception + (envelope \<times> world)" where
  "create_project_plan h w plan_content =
     (case path_mkdir w plan_dir of
        Inl e \<Rightarrow> Inl e
      | Inr w1 \<Rightarrow>
          (let current_dir = cwd w1;
               plan_with_dir = ''# Project Action Plan\<newline>\<newline>Working Directory: '' @ current_dir
                                 @ ''\<newline>\<newline>'' @ plan_content
           in Inr (write_file h w1 plan_file plan_with_dir ''w'')))"

text \<open>The result of the first \<^verbatim>\<open>write_file\<close> is dropped; only its effect remains.\<close>

definition append_to_project_plan :: "host \<Rightarrow> world \<Rightarrow> string \<Rightarrow> envelope \<times> world" where
  "append_to_project_plan h w additional_content =
     (let w1 = (if \<not> path_exists w plan_file
                then (let current_dir = cwd w;
                          initial_content = ''# Project Action Plan\<newline>\<newline>Working Directory: ''
                                              @ current_dir @ ''\<newline>\<newline>''
                      in snd (write_file h w plan_file initial_content ''w''))
                else w)
      in append_file h w1 plan_file (''\<newline>'' @ additional_content))"

definition read_project_plan :: "world \<Rightarrow> envelope" where
  "read_project_plan w = read_file w plan_file"

definition list_directory :: "host \<Rightarrow> world \<Rightarrow> string \<Rightarrow> envelope" where
  "list_directory h w directory =
     (case os_listdir h directory w of
        Inr contents \<Rightarrow> [(''contents'', JList (map JStr contents)), (''success'', JBool True)]
      | Inl e \<Rightarrow> [(''contents'', JList []), (''error'', JStr (str e)), (''success'', JBool False)])"

definition get_file_info :: "host \<Rightarrow> world \<Rightarrow> string \<Rightarrow> envelope" where
  "get_file_info h w file_path =
     (case os_stat h file_path w of
        Inr file_stat \<Rightarrow>
          (let info = [(''size'', JInt (st_size file_stat)),
                       (''modified_time'', JFloat (st_mtime file_stat)),
                       (''created_time'', JFloat (st_ctime file_stat)),
                       (''is_directory'', JBool (os_path_isdir w file_path)),
                       (''is_file'', JBool (os_path_isfile w file_path))]
           in [(''info'', JObj info), (''success'', JBool True)])
      | Inl e \<Rightarrow> [(''info'', JObj []), (''error'', JStr (str e)), (''success'', JBool False)])"

definition create_directory :: "host \<Rightarrow> world \<Rightarrow> string \<Rightarrow> envelope \<times> world" where
  "create_directory h w directory_path =
     (case os_makedirs h directory_path w of
        Inr w' \<Rightarrow> ([(''success'', JBool True)], w')
      | Inl e \<Rightarrow> ([(''success'', JBool False), (''error'', JStr (str e))], w))"

subsection \<open>The catalogue of functions\<close>

datatype func =
    Run_command
  | Read_file
  | Write_file
  | Append_file
  | Web_search
  | Web_fetch
  | Create_project_plan
  | Append_to_project_plan
  | Read_project_plan
  | List_directory
  | Get_file_info
  | Create_directory


text \<open>The documentation strings, as the source has them between the triple quotes.\<close>

fun func_doc :: "func \<Rightarrow> string option" where
  "func_doc Run_command = Some
      (''\<newline>''
       @ ''    Run a shell command and return the output and exit code.\<newline>''
       @ ''    \<newline>''
       @ ''    Args:\<newline>''
       @ ''        command: Command to execute\<newline>''
       @ ''        \<newline>''
       @ ''    Returns:\<newline>''
       @ ''        Dictionary with stdout, stderr, and exit_code\<newline>''
       @ ''    '')"
| "func_doc Read_file = Some
      (''\<newline>''
       @ ''    Read contents from a file.\<newline>''
       @ ''    \<newline>''
       @ ''    Args:\<newline>''
       @ ''        file_path: Path to the file\<newline>''
       @ ''        \<newline>''
       @ ''    Returns:\<newline>''
       @ ''        Dictionary with content and success status\<newline>''
       @ ''    '')"
| "func_doc Write_file = Some
      (''\<newline>''
       @ ''    Write or append content to a file.\<newline>''
       @ ''    \<newline>''
       @ ''    Args:\<newline>''
       @ ''        file_path: Path to the file\<newline>''
       @ ''        content: Content to write\<newline>''
       @ ''        mode: 'w' for write (overwrite), 'a' for append\<newline>''
       @ ''        \<newline>''
       @ ''    Returns:\<newline>''
       @ ''        Dictionary with success status\<newline>''
       @ ''    '')"
| "func_doc Append_file = Some
      (''\<newline>''
       @ ''    Append content to a file.\<newline>''
       @ ''    \<newline>''
       @ ''    Args:\<newline>''
       @ ''        file_path: Path to the file\<newline>''
       @ ''        content: Content to append\<newline>''
       @ ''        \<newline>''
       @ ''    Returns:\<newline>''
       @ ''        Dictionary with success status\<newline>''
       @ ''    '')"
| "func_doc Web_search = Some
      (''\<newline>''
       @ ''    Search the web for information.\<newline>''
       @ ''    \<newline>''
       @ ''    Args:\<newline>''
       @ ''        query: Search query\<newline>''
       @ ''        \<newline>''
       @ ''    Returns:\<newline>''
       @ ''        Dictionary with search results and success status\<newline>''
       @ ''    '')"
| "func_doc Web_fetch = Some
      (''\<newline>''
       @ ''    Fetch content from a specific URL.\<newline>''
       @ ''    \<newline>''
       @ ''    Args:\<newline>''
       @ ''        url: URL to fetch content from\<newline>''
       @ ''        \<newline>''
       @ ''    Returns:\<newline>''
       @ ''        Dictionary with content and success status\<newline>''
       @ ''    '')"
| "func_doc Create_project_plan = Some
      (''\<newline>''
       @ ''    Create or update the project action plan file.\<newline>''
       @ ''    \<newline>''
       @ ''    Args:\<newline>''
       @ ''        plan_content: Plan content to write\<newline>''
       @ ''        \<newline>''
       @ ''    Returns:\<newline>''
       @ ''        Dictionary with success status\<newline>''
       @ ''    '')"
| "func_doc Append_to_project_plan = Some
      (''\<newline>''
       @ ''    Append content to the project action plan.\<newline>''
       @ ''    \<newline>''
       @ ''    Args:\<newline>''
       @ ''        additional_content: Content to append\<newline>''
       @ ''        \<newline>''
       @ ''    Returns:\<newline>''
       @ ''        Dictionary with success status\<newline>''
       @ ''    '')"
| "func_doc Read_project_plan = Some
      (''\<newline>''
       @ ''    Read the current project action plan.\<newline>''
       @ ''    \<newline>''
       @ ''    Returns:\<newline>''
       @ ''        Dictionary with plan content and success status\<newline>''
       @ ''    '')"
| "func_doc List_directory = Some
      (''\<newline>''
       @ ''    List contents of a directory.\<newline>''
       @ ''    \<newline>''
       @ ''    Args:\<newline>''
       @ ''        directory: Directory path to list (defaults to current directory)\<newline>''
       @ ''        \<newline>''
       @ ''    Returns:\<newline>''
       @ ''        Dictionary with directory contents and success status\<newline>''
       @ ''    '')"
| "func_doc Get_file_info = Some
      (''\<newline>''
       @ ''    Get information about a file (size, modification time, etc).\<newline>''
       @ ''    \<newline>''
       @ ''    Args:\<newline>''
       @ ''        file_path: Path to the file\<newline>''
       @ ''        \<newline>''
       @ ''    Returns:\<newline>''
       @ ''        Dictionary with file information and success status\<newline>''
       @ ''    '')"
| "func_doc Create_directory = Some
      (''\<newline>''
       @ ''    Create a new directory.\<newline>''
       @ ''    \<newline>''
       @ ''    Args:\<newline>''
       @ ''        directory_path: Path of directory to create\<newline>''
       @ ''        \<newline>''
       @ ''    Returns:\<newline>''
       @ ''        Dictionary with success status\<newline>''
       @ ''    '')"

definition isspace :: "char \<Rightarrow> bool" where
  "isspace c = (c \<in> set [CHR 0x20, CHR 0x09, CHR 0x0A, CHR 0x0B, CHR 0x0C, CHR 0x0D,
                           CHR 0x1C, CHR 0x1D, CHR 0x1E, CHR 0x1F])"

definition strip :: "string \<Rightarrow> string" where
  "strip s = rev (dropWhile isspace (rev (dropWhile isspace s)))"






section \<open>The registered tools (coder.py)\<close>

text \<open>
  Each tool is a function decorated with \<^verbatim>\<open>@mcp.tool()\<close> that passes its arguments to
  one operation and returns what the operation returns. A call is the tool together with
  arguments of the declared shape; an omitted optional argument is \<open>None\<close>.
\<close>

datatype tool_call =
    Execute_command string
  | Read_file_content string
  | Write_file_content string string "string option"
  | Append_to_file string string
  | Search_web string
  | Fetch_url string
  | Create_plan string
  | Append_plan string
  | Read_plan
  | List_dir "string option"
  | Get_file_details string
  | Create_dir string


fun tool :: "host \<Rightarrow> world \<Rightarrow> tool_call \<Rightarrow> exception + (envelope \<times> world)" where
  "tool h w (Execute_command command) = Inr (run_command h w command)"
| "tool h w (Read_file_content file_path) = Inr (read_file w file_path, w)"
| "tool h w (Write_file_content file_path content mode) =
     Inr (write_file h w file_path content (case mode of None \<Rightarrow> ''w'' | Some m \<Rightarrow> m))"
| "tool h w (Append_to_file file_path content) = Inr (append_file h w file_path content)"
| "tool h w (Search_web query) = Inr (web_search h w query, w)"
| "tool h w (Fetch_url url) = Inr (web_fetch h w url, w)"
| "tool h w (Create_plan plan_content) = create_project_plan h w plan_content"
| "tool h w (Append_plan additional_content) = Inr (append_to_project_plan h w additional_content)"
| "tool h w Read_plan = Inr (read_project_plan w, w)"
| "tool h w (List_dir directory) =
     Inr (list_directory h w (case directory of None \<Rightarrow> ''.'' | Some d \<Rightarrow> d), w)"
| "tool h w (Get_file_details file_path) = Inr (get_file_info h w file_path, w)"
| "tool h w (Create_dir directory_path) = Inr (create_directory h w directory_path)"

section \<open>A concrete host and concrete worlds\<close>

text \<open>
  A host on which the command \<^verbatim>\<open>exit 7\<close> runs and exits with status 7 and no other
  command can be spawned, the search provider answers a request with an empty key by
  status 403, and every other external call fails. \<open>world0\<close> is an empty working
  directory with an empty environment; in \<open>world_blocked\<close> the name
  \<^verbatim>\<open>project_plan\<close> is taken by a regular file; \<open>world_dev\<close> has the null device.
\<close>

definition host0 :: host where
  "host0 =
     \<lparr>subprocess_run = (\<lambda>c w. if c = ''exit 7''
                              then Inr (\<lparr>stdout = [], stderr = [], returncode = 7\<rparr>, w)
                              else Inl (HostError ''spawn failed'')),
      requests_get = (\<lambda>u ps w. if map_of ps ''key'' = Some []
                               then Inr \<lparr>status_code = 403, text_body = ''forbidden''\<rparr>
                               else Inl (HostError ''connection refused'')),
      os_listdir = (\<lambda>d w. Inl (HostError ''not a directory'')),
      os_stat = (\<lambda>p w. Inl (HostError ''no such file'')),
      os_makedirs = (\<lambda>d w. Inl (HostError ''permission denied'')),
      open_other = (\<lambda>m p c w. Inl (HostError ''invalid mode'')),
      json_dumps = (\<lambda>j n. [])\<rparr>"

definition world0 :: world where
  "world0 = \<lparr>fs = (\<lambda>p. None), cwd = ''/home/user'', environ = (\<lambda>k. None)\<rparr>"

definition world_blocked :: world where
  "world_blocked = world0\<lparr>fs := [''project_plan'' \<mapsto> File ''notes'']\<rparr>"


section \<open>Properties\<close>

subsection \<open>Failures of external calls\<close>

text \<open>
  C1. The claim: every operation returns an envelope and never lets an exception escape,
  create_plan included, whose directory creation is an external call too. In the code
  \<^verbatim>\<open>create_project_plan\<close> calls \<^verbatim>\<open>mkdir\<close> outside any handler: where
  \<^verbatim>\<open>project_plan\<close> is a regular file, the call raises and create_plan returns no
  envelope; the exception reaches the caller.
\<close>

theorem create_plan_raises:
  "tool host0 world_blocked (Create_plan ''Step 1'') = Inl (FileExistsError ''project_plan'')"
  by (simp add: create_project_plan_def path_mkdir_def plan_dir_def path_error_def
        ancestors_def target_def basename_def world_blocked_def world0_def)

subsection \<open>The success field\<close>




subsection \<open>Facts about paths\<close>







lemma plan_file_eq: "plan_file = ''project_plan/action_plan.md''"
  by (simp add: plan_file_def plan_dir_def)


lemma target_plan_file:
  "target w ''project_plan/action_plan.md'' = fs w ''project_plan/action_plan.md''"
  by (simp add: target_def basename_def)


lemma path_error_plan_file:
  "path_error w ''project_plan/action_plan.md'' =
     (case fs w ''project_plan'' of
        Some Dir \<Rightarrow> None
      | None \<Rightarrow> Some (FileNotFoundError ''project_plan/action_plan.md'')
      | Some n \<Rightarrow> Some (NotADirectoryError ''project_plan/action_plan.md''))"
  by (simp add: path_error_def ancestors_def basename_def target_def
           split: option.splits node.splits)


subsection \<open>Writing and reading a file\<close>




subsection \<open>The plan document\<close>




text \<open>
  C6. The claim: whenever the plan document is absent, append_plan creates it with its
  header and appends the content, returning success=true. In the code
  \<^verbatim>\<open>append_to_project_plan\<close> never creates the directory \<^verbatim>\<open>project_plan\<close> (as
  \<^verbatim>\<open>create_project_plan\<close> does) and drops the result of the write of the header: in an
  empty working directory both writes fail, the envelope is a failure and no document
  exists afterwards.
\<close>

theorem append_plan_missing_directory:
  "tool host0 world0 (Append_plan ''Step 2'') =
     Inr ([(''success'', JBool False),
           (''error'', JStr (str (FileNotFoundError ''project_plan/action_plan.md'')))], world0)
   \<and> fs world0 ''project_plan/action_plan.md'' = None"
  by (simp add: append_to_project_plan_def append_file_def write_file_def open_write_def
        path_exists_def plan_file_eq path_error_plan_file target_plan_file world0_def)

subsection \<open>Commands\<close>

text \<open>
  C7. execute_command returns the exit status of the process in exit_code, with its
  output in stdout and stderr and no success field; when the process cannot be run it
  returns exit_code 1, the message of the failure in stderr and an empty stdout.
\<close>

theorem run_command_exit_code:
  "(subprocess_run h command w = Inr (result, w') \<longrightarrow>
      tool h w (Execute_command command) =
        Inr ([(''stdout'', JStr (stdout result)), (''stderr'', JStr (stderr result)),
              (''exit_code'', JInt (returncode result))], w'))
   \<and> (subprocess_run h command w = Inl e \<longrightarrow>
      tool h w (Execute_command command) =
        Inr ([(''stdout'', JStr []), (''stderr'', JStr (str e)), (''exit_code'', JInt 1)], w))"
  by (simp add: run_command_def)

theorem run_command_exit_code_witness:
  "subprocess_run host0 ''exit 7'' world0 = Inr (\<lparr>stdout = [], stderr = [], returncode = 7\<rparr>, world0)
   \<and> map_of (fst (projr (tool host0 world0 (Execute_command ''exit 7'')))) ''exit_code'' = Some (JInt 7)
   \<and> subprocess_run host0 ''ls'' world0 = Inl (HostError ''spawn failed'')
   \<and> tool host0 world0 (Execute_command ''ls'') =
        Inr ([(''stdout'', JStr []), (''stderr'', JStr ''spawn failed''), (''exit_code'', JInt 1)], world0)"
proof -
  have a: "subprocess_run host0 ''exit 7'' world0 = Inr (\<lparr>stdout = [], stderr = [], returncode = 7\<rparr>, world0)"
    by (simp add: host0_def)
  have b: "subprocess_run host0 ''ls'' world0 = Inl (HostError ''spawn failed'')"
    by (simp add: host0_def)
  from a b
    run_command_exit_code [of host0 "''exit 7''" world0 "\<lparr>stdout = [], stderr = [], returncode = 7\<rparr>" world0 "HostError ''spawn failed''"]
    run_command_exit_code [of host0 "''ls''" world0 "\<lparr>stdout = [], stderr = [], returncode = 7\<rparr>" world0 "HostError ''spawn failed''"]
  show ?thesis by simp
qed

subsection \<open>Web search\<close>

text \<open>
  C8 as stated fails where the provider rejects the request: with both credentials absent
  the request is sent with empty values, the provider answers (here with status 403), and
  \<^verbatim>\<open>web_search\<close> returns success=true with the answer's body and no error field. The code
  never looks at the status of a response.
\<close>

theorem search_web_auth_failure_counterexample:
  "environ world0 ''GOOGLE_API_KEY'' = None
   \<and> environ world0 ''GOOGLE_SEARCH_ENGINE_ID'' = None
   \<and> requests_get host0 ''https://www.googleapis.com/customsearch/v1''
        [(''q'', ''isabelle''), (''key'', []), (''cx'', [])] world0 =
        Inr \<lparr>status_code = 403, text_body = ''forbidden''\<rparr>
   \<and> tool host0 world0 (Search_web ''isabelle'') =
        Inr ([(''results'', JStr ''forbidden''), (''success'', JBool True)], world0)
   \<and> map_of [(''results'', JStr ''forbidden''), (''success'', JBool True)] ''success'' \<noteq> Some (JBool False)
   \<and> map_of [(''results'', JStr ''forbidden''), (''success'', JBool True)] ''error'' = None"
  by (simp add: web_search_def environ_get_def host0_def world0_def)

text \<open>
  C8, amended. search_web reads the two credentials from the environment when it is called,
  an absent one counting as the empty string, and always returns an envelope. When the HTTP
  request raises, the envelope has success=false, the message of the failure in error and
  empty results; when the request returns a response, whatever its status, the envelope has
  success=true and the body of the response in results.
\<close>

theorem search_web_outcomes:
  assumes "key = (case environ w ''GOOGLE_API_KEY'' of None \<Rightarrow> [] | Some v \<Rightarrow> v)"
    and "cx = (case environ w ''GOOGLE_SEARCH_ENGINE_ID'' of None \<Rightarrow> [] | Some v \<Rightarrow> v)"
  shows "(requests_get h ''https://www.googleapis.com/customsearch/v1''
            [(''q'', query), (''key'', key), (''cx'', cx)] w = Inl e \<longrightarrow>
          tool h w (Search_web query) =
            Inr ([(''results'', JStr []), (''error'', JStr (str e)), (''success'', JBool False)], w))
       \<and> (requests_get h ''https://www.googleapis.com/customsearch/v1''
            [(''q'', query), (''key'', key), (''cx'', cx)] w = Inr resp \<longrightarrow>
          tool h w (Search_web query) =
            Inr ([(''results'', JStr (text_body resp)), (''success'', JBool True)], w))"
  using assms by (simp add: web_search_def environ_get_def split: option.splits)

theorem search_web_outcomes_witness:
  "tool host0 (world0\<lparr>environ := [''GOOGLE_API_KEY'' \<mapsto> ''k'']\<rparr>) (Search_web ''isabelle'') =
     Inr ([(''results'', JStr []), (''error'', JStr ''connection refused''), (''success'', JBool False)],
          world0\<lparr>environ := [''GOOGLE_API_KEY'' \<mapsto> ''k'']\<rparr>)
   \<and> tool host0 world0 (Search_web ''isabelle'') =
     Inr ([(''results'', JStr ''forbidden''), (''success'', JBool True)], world0)"
proof -
  let ?w = "world0\<lparr>environ := [''GOOGLE_API_KEY'' \<mapsto> ''k'']\<rparr>"
  let ?u = "''https://www.googleapis.com/customsearch/v1''"
  have a: "requests_get host0 ?u [(''q'', ''isabelle''), (''key'', ''k''), (''cx'', [])] ?w
             = Inl (HostError ''connection refused'')"
    by (simp add: host0_def)
  have b: "requests_get host0 ?u [(''q'', ''isabelle''), (''key'', []), (''cx'', [])] world0
             = Inr \<lparr>status_code = 403, text_body = ''forbidden''\<rparr>"
    by (simp add: host0_def)
  have k: "''k'' = (case environ ?w ''GOOGLE_API_KEY'' of None \<Rightarrow> [] | Some v \<Rightarrow> v)"
    and c: "[] = (case environ ?w ''GOOGLE_SEARCH_ENGINE_ID'' of None \<Rightarrow> [] | Some v \<Rightarrow> v)"
    and k0: "[] = (case environ world0 ''GOOGLE_API_KEY'' of None \<Rightarrow> [] | Some v \<Rightarrow> v)"
    and c0: "[] = (case environ world0 ''GOOGLE_SEARCH_ENGINE_ID'' of None \<Rightarrow> [] | Some v \<Rightarrow> v)"
    by (simp_all add: world0_def)
  from search_web_outcomes [OF k c, of host0 "''isabelle''" "HostError ''connection refused''" "\<lparr>status_code = 403, text_body = ''forbidden''\<rparr>"]
       search_web_outcomes [OF k0 c0, of host0 "''isabelle''" "HostError ''connection refused''" "\<lparr>status_code = 403, text_body = ''forbidden''\<rparr>"]
       a b
  show ?thesis by simp
qed

subsection \<open>The standalone script\<close>



text \<open>The description of the first entry of the catalogue, as it is printed.\<close>

lemma strip_doc_run_command:
  "strip (the (func_doc Run_command)) =
     ''Run a shell command and return the output and exit code.\<newline>''
     @ ''    \<newline>''
     @ ''    Args:\<newline>''
     @ ''        command: Command to execute\<newline>''
     @ ''        \<newline>''
     @ ''    Returns:\<newline>''
     @ ''        Dictionary with stdout, stderr, and exit_code''"
  by (simp add: strip_def isspace_def)



subsection \<open>The error field\<close>



end
